theory Spec2Isabelle
  imports Main
begin

section \<open>Python text operations used by the packet monitor\<close>

text \<open>
  Text is modelled as \<^typ>\<open>string\<close>, a list of 8-bit characters. The capture engine
  emits addresses, ports and protocol numbers, which are ASCII, and on ASCII text a
  character, a byte and a Python code point are the same thing. The two literals of the
  source with a character beyond ASCII (the warning sign and the dash) are written as
  their UTF-8 bytes. \<open>lower_str\<close> and \<open>strip_str\<close> act on the ASCII letters and on the
  ASCII white space of Python's \<open>str.isspace\<close>.
\<close>

definition is_space :: "char \<Rightarrow> bool" where
  "is_space c = (c = CHR 0x09 \<or> c = CHR 0x0A \<or> c = CHR 0x0B \<or> c = CHR 0x0C \<or> c = CHR 0x0D
     \<or> c = CHR 0x1C \<or> c = CHR 0x1D \<or> c = CHR 0x1E \<or> c = CHR 0x1F \<or> c = CHR 0x20)"

text \<open>\<open>s.strip()\<close>: white space removed at both ends.\<close>

definition strip_str :: "string \<Rightarrow> string" where
  "strip_str s = rev (dropWhile is_space (rev (dropWhile is_space s)))"

text \<open>
  \<open>s.split(sep)\<close> for a one-character separator: a character that is not the
  separator goes in front of the first field of the rest. The result is never the empty
  list, so the first branch of the \<open>case\<close> is never taken.
\<close>

fun split_str :: "char \<Rightarrow> string \<Rightarrow> string list" where
  "split_str sep [] = [[]]"
| "split_str sep (c # cs) =
     (if c = sep then [] # split_str sep cs
      else (case split_str sep cs of
              [] \<Rightarrow> [[c]]
            | p # ps \<Rightarrow> (c # p) # ps))"

text \<open>\<open>sep.join(xs)\<close>.\<close>

fun join_str :: "string \<Rightarrow> string list \<Rightarrow> string" where
  "join_str sep [] = []"
| "join_str sep [x] = x"
| "join_str sep (x # y # ys) = x @ sep @ join_str sep (y # ys)"

text \<open>\<open>s.lower()\<close> on the ASCII letters.\<close>

definition lower_char :: "char \<Rightarrow> char" where
  "lower_char c =
     (if 65 \<le> (of_char c :: nat) \<and> (of_char c :: nat) \<le> 90 then char_of ((of_char c :: nat) + 32) else c)"

definition lower_str :: "string \<Rightarrow> string" where
  "lower_str s = map lower_char s"

text \<open>\<open>sub in s\<close>: \<open>sub\<close> occurs in \<open>s\<close> as a contiguous run.\<close>

fun starts_with :: "string \<Rightarrow> string \<Rightarrow> bool" where
  "starts_with [] s = True"
| "starts_with (a # as) [] = False"
| "starts_with (a # as) (c # cs) = (a = c \<and> starts_with as cs)"

fun contains :: "string \<Rightarrow> string \<Rightarrow> bool" where
  "contains sub [] = (sub = [])"
| "contains sub (c # cs) = (starts_with sub (c # cs) \<or> contains sub cs)"

text \<open>The format specifications \<open><n\<close> (pad on the right) and \<open>>n\<close> (pad on the left).\<close>

definition ljust :: "nat \<Rightarrow> string \<Rightarrow> string" where
  "ljust n s = s @ replicate (n - length s) CHR '' ''"

definition rjust :: "nat \<Rightarrow> string \<Rightarrow> string" where
  "rjust n s = replicate (n - length s) CHR '' '' @ s"

text \<open>\<open>str(n)\<close> for an integer: decimal digits, with a minus sign below zero.\<close>

definition digit_char :: "nat \<Rightarrow> char" where
  "digit_char d = ''0123456789'' ! (d mod 10)"

fun str_nat :: "nat \<Rightarrow> string" where
  "str_nat n = (if n < 10 then [digit_char n] else str_nat (n div 10) @ [digit_char (n mod 10)])"

declare str_nat.simps [simp del]

definition str_int :: "int \<Rightarrow> string" where
  "str_int i = (if i < 0 then CHR ''-'' # str_nat (nat (- i)) else str_nat (nat i))"

section \<open>Errors and indexing\<close>

text \<open>
  The exceptions of the model: \<open>parts[i]\<close> raises IndexError out of range, and starting
  a process raises PermissionError or another exception, kept with its \<open>str(e)\<close>.
  Every read of the source is a value of \<open>py_error + 'a\<close>, so that a read out of range
  is a branch of the model.
\<close>

datatype py_error = IndexError | PermissionError | OtherError string

definition item :: "'a list \<Rightarrow> nat \<Rightarrow> py_error + 'a" where
  "item xs i = (if i < length xs then Inr (xs ! i) else Inl IndexError)"

definition and_then :: "py_error + 'a \<Rightarrow> ('a \<Rightarrow> py_error + 'b) \<Rightarrow> py_error + 'b" where
  "and_then m f = (case m of Inl e \<Rightarrow> Inl e | Inr x \<Rightarrow> f x)"

section \<open>Formatting and protocol names\<close>

text \<open>\<open>format_simple_line\<close>: \<open>f"{count:>6}  {src_ip:<15} ---> {dst_ip:<15}  [{protocol}]"\<close>.\<close>

definition format_simple_line :: "string \<Rightarrow> string \<Rightarrow> string \<Rightarrow> int \<Rightarrow> string" where
  "format_simple_line src_ip dst_ip protocol count =
     rjust 6 (str_int count) @ ''  '' @ ljust 15 src_ip @ '' ---> '' @ ljust 15 dst_ip
       @ ''  ['' @ protocol @ '']''"

text \<open>
  \<open>format_5tuple_line\<close>: an endpoint is \<open>ip:port\<close> when the port is a non-empty string
  and the bare address otherwise; both endpoints are padded to 22.
\<close>

definition format_5tuple_line ::
  "string \<Rightarrow> string \<Rightarrow> string \<Rightarrow> string \<Rightarrow> string \<Rightarrow> int \<Rightarrow> string" where
  "format_5tuple_line src_ip src_port dst_ip dst_port protocol count =
     (let src_part = (if src_port \<noteq> [] then src_ip @ '':'' @ src_port else src_ip);
          dst_part = (if dst_port \<noteq> [] then dst_ip @ '':'' @ dst_port else dst_ip)
      in rjust 6 (str_int count) @ ''  '' @ ljust 22 src_part @ '' ---> '' @ ljust 22 dst_part
           @ ''  ['' @ protocol @ '']'')"

text \<open>\<open>map_protocol\<close>: the dictionary and \<open>protocol_map.get(proto_num, default)\<close>.\<close>

definition protocol_map :: "string \<rightharpoonup> string" where
  "protocol_map = [''1'' \<mapsto> ''ICMP'', ''6'' \<mapsto> ''TCP'', ''17'' \<mapsto> ''UDP'', ''58'' \<mapsto> ''ICMPv6'']"

definition map_protocol :: "string \<Rightarrow> string" where
  "map_protocol proto_num =
     (case protocol_map proto_num of
        Some name \<Rightarrow> name
      | None \<Rightarrow> (if proto_num \<noteq> [] then proto_num else ''IP''))"

section \<open>The record decoder\<close>

text \<open>The values the loop body resolves from one record, in simple and in 5-tuple mode.\<close>

record simple_tuple =
  src :: string
  dst :: string
  protocol :: string

record tuple5 =
  src5 :: string
  src_port :: string
  dst5 :: string
  dst_port :: string
  protocol5 :: string

text \<open>\<open>parts[i] if parts[i] else parts[j]\<close>.\<close>

definition first_nonempty :: "string list \<Rightarrow> nat \<Rightarrow> nat \<Rightarrow> py_error + string" where
  "first_nonempty parts i j =
     and_then (item parts i) (\<lambda>a. if a \<noteq> [] then item parts i else item parts j)"

text \<open>\<open>parts[i] if len(parts) > i and parts[i] else (parts[j] if len(parts) > j else '')\<close>.\<close>

definition proto_field :: "string list \<Rightarrow> nat \<Rightarrow> nat \<Rightarrow> py_error + string" where
  "proto_field parts i j =
     and_then (if length parts > i then and_then (item parts i) (\<lambda>a. Inr (a \<noteq> [])) else Inr False)
       (\<lambda>c. if c then item parts i else if length parts > j then item parts j else Inr [])"

text \<open>
  The body of the loop of \<open>run_simple_monitor\<close> up to the test \<open>if src and dst\<close>:
  \<open>None\<close> is a record the loop skips.
\<close>

definition decode_simple :: "string \<Rightarrow> py_error + simple_tuple option" where
  "decode_simple raw =
     (let line = strip_str raw in
      if line = [] then Inr None
      else let parts = split_str CHR ''|'' line in
        if length parts < 4 then Inr None
        else
          and_then (first_nonempty parts 0 1) (\<lambda>s.
          and_then (first_nonempty parts 2 3) (\<lambda>d.
          and_then (proto_field parts 4 5) (\<lambda>proto_num.
            let p = map_protocol proto_num in
            if s \<noteq> [] \<and> d \<noteq> [] then Inr (Some \<lparr>src = s, dst = d, protocol = p\<rparr>)
            else Inr None))))"

text \<open>The same part of the loop of \<open>run_5tuple_monitor\<close>.\<close>

definition decode_5tuple :: "string \<Rightarrow> py_error + tuple5 option" where
  "decode_5tuple raw =
     (let line = strip_str raw in
      if line = [] then Inr None
      else let parts = split_str CHR ''|'' line in
        if length parts < 8 then Inr None
        else
          and_then (first_nonempty parts 0 1) (\<lambda>s.
          and_then (first_nonempty parts 2 3) (\<lambda>sp.
          and_then (first_nonempty parts 4 5) (\<lambda>d.
          and_then (first_nonempty parts 6 7) (\<lambda>dp.
          and_then (proto_field parts 8 9) (\<lambda>proto_num.
            let p = map_protocol proto_num in
            if s \<noteq> [] \<and> d \<noteq> [] then
              Inr (Some \<lparr>src5 = s, src_port = sp, dst5 = d, dst_port = dp, protocol5 = p\<rparr>)
            else Inr None))))))"

section \<open>The presentation loops\<close>

text \<open>
  What the program does to the outside is a list of events in the order they happen:
  a \<open>print\<close> call with its argument, a \<open>subprocess.run\<close> and a \<open>subprocess.Popen\<close>
  with the command line they are given.
\<close>

datatype event = Print string | PrintHelp | Run "string list" | Popen "string list"

text \<open>
  The loop state is \<open>packet_count\<close> and the lines printed so far. One iteration of
  \<open>for line in process.stdout\<close>: a skipped record leaves the state as it is, a decoded
  one increments the counter and prints one line.
\<close>

definition simple_step :: "int \<times> string list \<Rightarrow> string \<Rightarrow> py_error + int \<times> string list" where
  "simple_step st raw =
     and_then (decode_simple raw) (\<lambda>r.
       case r of
         None \<Rightarrow> Inr st
       | Some t \<Rightarrow>
           (let packet_count = fst st + 1
            in Inr (packet_count,
                    snd st @ [format_simple_line (src t) (dst t) (protocol t) packet_count])))"

definition tuple5_step :: "int \<times> string list \<Rightarrow> string \<Rightarrow> py_error + int \<times> string list" where
  "tuple5_step st raw =
     and_then (decode_5tuple raw) (\<lambda>r.
       case r of
         None \<Rightarrow> Inr st
       | Some t \<Rightarrow>
           (let packet_count = fst st + 1
            in Inr (packet_count,
                    snd st @ [format_5tuple_line (src5 t) (src_port t) (dst5 t) (dst_port t)
                                (protocol5 t) packet_count])))"

text \<open>
  The loop over the lines the capture process writes until it exits. An exception ends
  the loop; what was printed before it stays printed.
\<close>

fun simple_loop :: "int \<times> string list \<Rightarrow> string list \<Rightarrow> (int \<times> string list) \<times> py_error option" where
  "simple_loop st [] = (st, None)"
| "simple_loop st (raw # rest) =
     (case simple_step st raw of
        Inl e \<Rightarrow> (st, Some e)
      | Inr st' \<Rightarrow> simple_loop st' rest)"

fun tuple5_loop :: "int \<times> string list \<Rightarrow> string list \<Rightarrow> (int \<times> string list) \<times> py_error option" where
  "tuple5_loop st [] = (st, None)"
| "tuple5_loop st (raw # rest) =
     (case tuple5_step st raw of
        Inl e \<Rightarrow> (st, Some e)
      | Inr st' \<Rightarrow> tuple5_loop st' rest)"

section \<open>The monitors\<close>

text \<open>
  \<open>subprocess.Popen\<close> either raises or starts the capture process, whose standard
  output is then the list of lines read until it exits. An operator interrupt is an
  asynchronous signal and is not part of the model.
\<close>

datatype popen_result = Started "string list" | PopenRaises py_error

definition banner_rule :: "nat \<Rightarrow> string" where
  "banner_rule w = CHR 0x0A # replicate w CHR ''=''"

text \<open>The three \<open>print\<close> calls under \<open>if packet_count == 0\<close>.\<close>

definition no_packets_notice :: "nat \<Rightarrow> string list" where
  "no_packets_notice w =
     [banner_rule w,
      [CHR 0xE2, CHR 0x9A, CHR 0xA0] @ '' No packets were captured'',
      replicate w CHR ''='']"

text \<open>\<open>if count_limit: tshark_cmd.extend(['-c', str(count_limit)])\<close>.\<close>

definition count_args :: "int option \<Rightarrow> string list" where
  "count_args count_limit =
     (case count_limit of
        None \<Rightarrow> []
      | Some n \<Rightarrow> (if n \<noteq> 0 then [''-c'', str_int n] else []))"

definition display_filter :: "string \<Rightarrow> string" where
  "display_filter src_ip = ''ip.src == '' @ src_ip"

definition simple_cmd :: "string \<Rightarrow> string \<Rightarrow> int option \<Rightarrow> string list" where
  "simple_cmd src_ip interface count_limit =
     [''tshark'', ''-i'', interface, ''-Y'', display_filter src_ip, ''-n'', ''-T'', ''fields'',
      ''-e'', ''ip.src'', ''-e'', ''ipv6.src'', ''-e'', ''ip.dst'', ''-e'', ''ipv6.dst'',
      ''-e'', ''ip.proto'', ''-e'', ''ipv6.nxt'', ''-E'', ''separator=|'', ''-E'', ''occurrence=f'']
     @ count_args count_limit"

definition tuple5_cmd :: "string \<Rightarrow> string \<Rightarrow> int option \<Rightarrow> string list" where
  "tuple5_cmd src_ip interface count_limit =
     [''tshark'', ''-i'', interface, ''-Y'', display_filter src_ip, ''-n'', ''-T'', ''fields'',
      ''-e'', ''ip.src'', ''-e'', ''ipv6.src'', ''-e'', ''tcp.srcport'', ''-e'', ''udp.srcport'',
      ''-e'', ''ip.dst'', ''-e'', ''ipv6.dst'', ''-e'', ''tcp.dstport'', ''-e'', ''udp.dstport'',
      ''-e'', ''ip.proto'', ''-e'', ''ipv6.nxt'', ''-E'', ''separator=|'', ''-E'', ''occurrence=f'']
     @ count_args count_limit"

definition debug_lines :: "bool \<Rightarrow> string \<Rightarrow> string list \<Rightarrow> string list" where
  "debug_lines debug src_ip cmd =
     (if debug then
        [''Debug: Display filter = '' @ display_filter src_ip,
         ''Debug: Command = '' @ join_str '' '' cmd]
      else [])"

definition simple_header :: "string \<Rightarrow> string \<Rightarrow> string list" where
  "simple_header src_ip interface =
     [banner_rule 80,
      ''Monitoring packets from: '' @ src_ip,
      ''Display mode: Simple (IP -> IP)'',
      ''Interface: '' @ interface,
      ''Press Ctrl-C to stop'',
      replicate 80 CHR ''='',
      rjust 6 ''#'' @ ''  '' @ ljust 15 ''Source IP'' @ ''      '' @ ljust 15 ''Destination IP''
        @ ''  '' @ ''Protocol'',
      replicate 80 CHR ''-'']"

definition tuple5_header :: "string \<Rightarrow> string \<Rightarrow> string list" where
  "tuple5_header src_ip interface =
     [banner_rule 100,
      ''Monitoring packets from: '' @ src_ip,
      ''Display mode: 5-tuple (IP:Port -> IP:Port, Protocol)'',
      ''Interface: '' @ interface,
      ''Press Ctrl-C to stop'',
      replicate 100 CHR ''='',
      rjust 6 ''#'' @ ''  '' @ ljust 22 ''Source'' @ ''      '' @ ljust 22 ''Destination''
        @ ''  '' @ ''Protocol'',
      replicate 100 CHR ''-'']"

text \<open>
  \<open>run_simple_monitor\<close>: the events of the run and the exception that leaves the
  function, if one does. The first argument is what \<open>subprocess.Popen\<close> does with the
  command line.
\<close>

definition run_simple_monitor ::
  "(string list \<Rightarrow> popen_result) \<Rightarrow> string \<Rightarrow> string \<Rightarrow> int option \<Rightarrow> bool
     \<Rightarrow> event list \<times> py_error option" where
  "run_simple_monitor popen src_ip interface count_limit debug =
     (let tshark_cmd = simple_cmd src_ip interface count_limit;
          before = map Print (simple_header src_ip interface @ debug_lines debug src_ip tshark_cmd)
                     @ [Popen ([''stdbuf'', ''-oL''] @ tshark_cmd)]
      in case popen ([''stdbuf'', ''-oL''] @ tshark_cmd) of
           PopenRaises e \<Rightarrow> (before, Some e)
         | Started lines \<Rightarrow>
             (case simple_loop (0, []) lines of
                ((packet_count, printed), Some e) \<Rightarrow> (before @ map Print printed, Some e)
              | ((packet_count, printed), None) \<Rightarrow>
                  (before @ map Print printed
                     @ (if packet_count = 0 then map Print (no_packets_notice 80) else []),
                   None)))"

definition run_5tuple_monitor ::
  "(string list \<Rightarrow> popen_result) \<Rightarrow> string \<Rightarrow> string \<Rightarrow> int option \<Rightarrow> bool
     \<Rightarrow> event list \<times> py_error option" where
  "run_5tuple_monitor popen src_ip interface count_limit debug =
     (let tshark_cmd = tuple5_cmd src_ip interface count_limit;
          before = map Print (tuple5_header src_ip interface @ debug_lines debug src_ip tshark_cmd)
                     @ [Popen ([''stdbuf'', ''-oL''] @ tshark_cmd)]
      in case popen ([''stdbuf'', ''-oL''] @ tshark_cmd) of
           PopenRaises e \<Rightarrow> (before, Some e)
         | Started lines \<Rightarrow>
             (case tuple5_loop (0, []) lines of
                ((packet_count, printed), Some e) \<Rightarrow> (before @ map Print printed, Some e)
              | ((packet_count, printed), None) \<Rightarrow>
                  (before @ map Print printed
                     @ (if packet_count = 0 then map Print (no_packets_notice 100) else []),
                   None)))"

section \<open>The permission probe\<close>

text \<open>
  What \<open>subprocess.run\<close> does with a command line: it completes with a return code,
  standard output and standard error, or it raises FileNotFoundError, TimeoutExpired or
  another exception, kept with its \<open>str(e)\<close>.
\<close>

datatype run_result =
  Completed int string string | RunFileNotFound | RunTimeout | RunRaises string



definition probe_cmd :: "string \<Rightarrow> string list" where
  "probe_cmd interface =
     [''tshark'', ''-i'', interface, ''-a'', ''duration:1'', ''-c'', ''1'', ''-n'',
      ''-T'', ''fields'', ''-e'', ''ip.src'']"

definition probe_capture_permissions ::
  "(string list \<Rightarrow> run_result) \<Rightarrow> string \<Rightarrow> bool \<times> string" where
  "probe_capture_permissions run interface =
     (case run (probe_cmd interface) of
        Completed returncode out err \<Rightarrow>
          (let stderr = lower_str (if err \<noteq> [] then err else [])
           in if contains ''permission'' stderr
                   \<or> contains (''you don'' @ [CHR 0x27] @ ''t have permission'') stderr
              then (False, strip_str err)
              else if returncode \<noteq> 0 \<and> stderr \<noteq> [] then (False, strip_str err)
              else (True, []))
      | RunFileNotFound \<Rightarrow> (False, ''tshark not found'')
      | RunTimeout \<Rightarrow> (True, [])
      | RunRaises msg \<Rightarrow> (False, msg))"

section \<open>The entry point\<close>











section \<open>Notions used to state the properties\<close>

text \<open>The pipe-separated fields of a raw record, as the loop body computes them.\<close>

definition raw_fields :: "string \<Rightarrow> string list" where
  "raw_fields raw = split_str CHR ''|'' (strip_str raw)"

text \<open>A field by position, empty when the record is too short to have it.\<close>

definition field :: "string list \<Rightarrow> nat \<Rightarrow> string" where
  "field ps i = (if i < length ps then ps ! i else [])"

text \<open>
  The resolution rule of the design: the IPv4 field if non-empty, else the IPv6 field
  if non-empty, else absent.
\<close>

definition resolve :: "string \<Rightarrow> string \<Rightarrow> string option" where
  "resolve v4 v6 = (if v4 \<noteq> [] then Some v4 else if v6 \<noteq> [] then Some v6 else None)"

text \<open>An endpoint as rendered: the bare address when the port is absent.\<close>

definition endpoint :: "string \<Rightarrow> string \<Rightarrow> string" where
  "endpoint ip port = (if port = [] then ip else ip @ '':'' @ port)"

text \<open>The tuples the records of a stream decode to, in the order of the stream.\<close>

definition decoded_simple :: "string list \<Rightarrow> simple_tuple list" where
  "decoded_simple lines =
     List.map_filter (\<lambda>raw. case decode_simple raw of Inl e \<Rightarrow> None | Inr r \<Rightarrow> r) lines"

definition decoded_5tuple :: "string list \<Rightarrow> tuple5 list" where
  "decoded_5tuple lines =
     List.map_filter (\<lambda>raw. case decode_5tuple raw of Inl e \<Rightarrow> None | Inr r \<Rightarrow> r) lines"

text \<open>
  The lines for a list of tuples, numbered from \<open>c + 1\<close> on: the \<open>k\<close>-th tuple is
  rendered with the counter \<open>c + k\<close>.
\<close>

definition numbered_simple :: "int \<Rightarrow> simple_tuple list \<Rightarrow> string list" where
  "numbered_simple c ts =
     map (\<lambda>(k, t). format_simple_line (src t) (dst t) (protocol t) k)
       (zip [c + 1..c + int (length ts)] ts)"

definition numbered_5tuple :: "int \<Rightarrow> tuple5 list \<Rightarrow> string list" where
  "numbered_5tuple c ts =
     map (\<lambda>(k, t). format_5tuple_line (src5 t) (src_port t) (dst5 t) (dst_port t) (protocol5 t) k)
       (zip [c + 1..c + int (length ts)] ts)"

text \<open>The line of the notice that names it.\<close>

definition notice_line :: string where
  "notice_line = [CHR 0xE2, CHR 0x9A, CHR 0xA0] @ '' No packets were captured''"



section \<open>Example hosts\<close>

text \<open>
  Concrete behaviours of \<open>subprocess.run\<close> and \<open>subprocess.Popen\<close>, a command line and
  two hosts, on which the properties below are evaluated.
\<close>

definition run_ok :: "string list \<Rightarrow> run_result" where
  "run_ok cmd = Completed 0 [] []"




definition denied_text :: string where
  "denied_text = ''tshark: The capture session could not be initiated on interface ''
     @ [CHR 0x27] @ ''any'' @ [CHR 0x27] @ '' (You don'' @ [CHR 0x27]
     @ ''t have permission to capture on that device).'' @ [CHR 0x0A]"

definition run_denied :: "string list \<Rightarrow> run_result" where
  "run_denied cmd = Completed 2 [] denied_text"

definition run_no_device :: "string list \<Rightarrow> run_result" where
  "run_no_device cmd = Completed 2 [] (''tshark: There is no device named val9'' @ [CHR 0x0A])"

definition run_missing :: "string list \<Rightarrow> run_result" where
  "run_missing cmd = RunFileNotFound"

definition run_timeout :: "string list \<Rightarrow> run_result" where
  "run_timeout cmd = RunTimeout"

definition run_raises :: "string list \<Rightarrow> run_result" where
  "run_raises cmd = RunRaises ''[Errno 12] Cannot allocate memory''"


section \<open>The decoder in closed form\<close>

lemma split_str_not_Nil: "split_str sep s \<noteq> []"
  by (induction s) (auto split: list.splits)

lemma fields_empty: "strip_str raw = [] \<Longrightarrow> length (raw_fields raw) = 1"
  by (simp add: raw_fields_def)

lemma first_nonempty_in_range:
  "i < length ps \<Longrightarrow> j < length ps \<Longrightarrow>
   first_nonempty ps i j = Inr (if ps ! i \<noteq> [] then ps ! i else ps ! j)"
  by (simp add: first_nonempty_def item_def and_then_def)

lemma proto_field_total:
  "proto_field ps i j =
     Inr (if i < length ps \<and> ps ! i \<noteq> [] then ps ! i else field ps j)"
  by (simp add: proto_field_def item_def and_then_def field_def)

lemma decode_simple_eq:
  "decode_simple raw =
     Inr (if length (raw_fields raw) < 4 then None
          else if (if raw_fields raw ! 0 \<noteq> [] then raw_fields raw ! 0 else raw_fields raw ! 1) \<noteq> []
                  \<and> (if raw_fields raw ! 2 \<noteq> [] then raw_fields raw ! 2 else raw_fields raw ! 3) \<noteq> []
          then Some \<lparr>src = (if raw_fields raw ! 0 \<noteq> [] then raw_fields raw ! 0 else raw_fields raw ! 1),
                     dst = (if raw_fields raw ! 2 \<noteq> [] then raw_fields raw ! 2 else raw_fields raw ! 3),
                     protocol = map_protocol
                       (if 4 < length (raw_fields raw) \<and> raw_fields raw ! 4 \<noteq> [] then raw_fields raw ! 4
                        else field (raw_fields raw) 5)\<rparr>
          else None)"
proof (cases "strip_str raw = []")
  case True
  then show ?thesis
    by (simp add: decode_simple_def raw_fields_def)
next
  case False
  show ?thesis
  proof (cases "length (raw_fields raw) < 4")
    case True
    with False show ?thesis
      by (simp add: decode_simple_def raw_fields_def Let_def)
  next
    case long: False
    have a: "first_nonempty (raw_fields raw) 0 1 =
        Inr (if raw_fields raw ! 0 \<noteq> [] then raw_fields raw ! 0 else raw_fields raw ! 1)"
      using long by (intro first_nonempty_in_range) auto
    have b: "first_nonempty (raw_fields raw) 2 3 =
        Inr (if raw_fields raw ! 2 \<noteq> [] then raw_fields raw ! 2 else raw_fields raw ! 3)"
      using long by (intro first_nonempty_in_range) auto
    show ?thesis
      unfolding decode_simple_def Let_def raw_fields_def [symmetric] a b proto_field_total
      using False long by (simp add: and_then_def)
  qed
qed


lemma decode_5tuple_eq:
  "decode_5tuple raw =
     Inr (if length (raw_fields raw) < 8 then None
          else if (if raw_fields raw ! 0 \<noteq> [] then raw_fields raw ! 0 else raw_fields raw ! 1) \<noteq> []
                  \<and> (if raw_fields raw ! 4 \<noteq> [] then raw_fields raw ! 4 else raw_fields raw ! 5) \<noteq> []
          then Some \<lparr>src5 = (if raw_fields raw ! 0 \<noteq> [] then raw_fields raw ! 0 else raw_fields raw ! 1),
                     src_port = (if raw_fields raw ! 2 \<noteq> [] then raw_fields raw ! 2 else raw_fields raw ! 3),
                     dst5 = (if raw_fields raw ! 4 \<noteq> [] then raw_fields raw ! 4 else raw_fields raw ! 5),
                     dst_port = (if raw_fields raw ! 6 \<noteq> [] then raw_fields raw ! 6 else raw_fields raw ! 7),
                     protocol5 = map_protocol
                       (if 8 < length (raw_fields raw) \<and> raw_fields raw ! 8 \<noteq> [] then raw_fields raw ! 8
                        else field (raw_fields raw) 9)\<rparr>
          else None)"
proof (cases "strip_str raw = []")
  case True
  then show ?thesis
    by (simp add: decode_5tuple_def raw_fields_def)
next
  case False
  show ?thesis
  proof (cases "length (raw_fields raw) < 8")
    case True
    with False show ?thesis
      by (simp add: decode_5tuple_def raw_fields_def Let_def)
  next
    case long: False
    define s where "s = (if raw_fields raw ! 0 \<noteq> [] then raw_fields raw ! 0 else raw_fields raw ! 1)"
    define sp where "sp = (if raw_fields raw ! 2 \<noteq> [] then raw_fields raw ! 2 else raw_fields raw ! 3)"
    define d where "d = (if raw_fields raw ! 4 \<noteq> [] then raw_fields raw ! 4 else raw_fields raw ! 5)"
    define dp where "dp = (if raw_fields raw ! 6 \<noteq> [] then raw_fields raw ! 6 else raw_fields raw ! 7)"
    define pn where "pn = (if 8 < length (raw_fields raw) \<and> raw_fields raw ! 8 \<noteq> []
                           then raw_fields raw ! 8 else field (raw_fields raw) 9)"
    have a: "first_nonempty (raw_fields raw) 0 1 = Inr s"
      unfolding s_def using long by (intro first_nonempty_in_range) auto
    have b: "first_nonempty (raw_fields raw) 2 3 = Inr sp"
      unfolding sp_def using long by (intro first_nonempty_in_range) auto
    have c: "first_nonempty (raw_fields raw) 4 5 = Inr d"
      unfolding d_def using long by (intro first_nonempty_in_range) auto
    have e: "first_nonempty (raw_fields raw) 6 7 = Inr dp"
      unfolding dp_def using long by (intro first_nonempty_in_range) auto
    have f: "proto_field (raw_fields raw) 8 9 = Inr pn"
      unfolding pn_def by (rule proto_field_total)
    have "decode_5tuple raw =
        Inr (if s \<noteq> [] \<and> d \<noteq> []
             then Some \<lparr>src5 = s, src_port = sp, dst5 = d, dst_port = dp, protocol5 = map_protocol pn\<rparr>
             else None)"
      unfolding decode_5tuple_def Let_def raw_fields_def [symmetric] a b c e f
      using False long by (simp add: and_then_def)
    then show ?thesis
      unfolding s_def sp_def d_def dp_def pn_def using long by (simp only: if_False)
  qed
qed

lemma decode_simple_no_error: "decode_simple raw \<noteq> Inl e"
  by (simp add: decode_simple_eq)

lemma decode_5tuple_no_error: "decode_5tuple raw \<noteq> Inl e"
  by (simp add: decode_5tuple_eq)

lemma simple_step_None: "decode_simple raw = Inr None \<Longrightarrow> simple_step st raw = Inr st"
  by (simp add: simple_step_def and_then_def)

lemma simple_step_Some:
  "decode_simple raw = Inr (Some t) \<Longrightarrow>
   simple_step st raw =
     Inr (fst st + 1, snd st @ [format_simple_line (src t) (dst t) (protocol t) (fst st + 1)])"
  by (simp add: simple_step_def and_then_def Let_def)

lemma tuple5_step_None: "decode_5tuple raw = Inr None \<Longrightarrow> tuple5_step st raw = Inr st"
  by (simp add: tuple5_step_def and_then_def)

lemma tuple5_step_Some:
  "decode_5tuple raw = Inr (Some t) \<Longrightarrow>
   tuple5_step st raw =
     Inr (fst st + 1,
          snd st @ [format_5tuple_line (src5 t) (src_port t) (dst5 t) (dst_port t) (protocol5 t)
                      (fst st + 1)])"
  by (simp add: tuple5_step_def and_then_def Let_def)

section \<open>Properties of the decoder and of the protocol table\<close>

text \<open>
  C1, as stated, fails: a record of four fields in simple mode is fewer than the six of
  the claim, and it is decoded, counted and rendered, with the protocol label \<open>IP\<close>.
\<close>

theorem short_record_counterexample:
  "length (raw_fields ''10.0.0.1||10.0.0.2|'') < 6
   \<and> decode_simple ''10.0.0.1||10.0.0.2|''
       = Inr (Some \<lparr>src = ''10.0.0.1'', dst = ''10.0.0.2'', protocol = ''IP''\<rparr>)
   \<and> simple_step (0, []) ''10.0.0.1||10.0.0.2|''
       = Inr (1, [''     1  10.0.0.1        ---> 10.0.0.2         [IP]''])"
  by code_simp

text \<open>
  C1, amended: a raw record with fewer than 4 pipe-separated fields in simple mode, or
  fewer than 8 in 5-tuple mode, decodes to absent: no tuple is produced, the packet
  counter and the printed lines stay as they are.
\<close>

theorem short_record_skipped:
  "(length (raw_fields raw) < 4 \<longrightarrow>
      decode_simple raw = Inr None \<and> simple_step st raw = Inr st)
   \<and> (length (raw_fields raw) < 8 \<longrightarrow>
      decode_5tuple raw = Inr None \<and> tuple5_step st raw = Inr st)"
  by (simp add: decode_simple_eq decode_5tuple_eq simple_step_None tuple5_step_None)

theorem short_record_skipped_witness:
  "length (raw_fields ''10.0.0.1||10.0.0.2'') < 4
   \<and> decode_simple ''10.0.0.1||10.0.0.2'' = Inr None
   \<and> simple_step (7, [''x'']) ''10.0.0.1||10.0.0.2'' = Inr (7, [''x''])
   \<and> length (raw_fields ''10.0.0.1||443||10.0.0.2||80'') < 8
   \<and> decode_5tuple ''10.0.0.1||443||10.0.0.2||80'' = Inr None
   \<and> tuple5_step (7, [''x'']) ''10.0.0.1||443||10.0.0.2||80'' = Inr (7, [''x''])"
proof -
  have a: "length (raw_fields ''10.0.0.1||10.0.0.2'') < 4"
    by code_simp
  have b: "length (raw_fields ''10.0.0.1||443||10.0.0.2||80'') < 8"
    by code_simp
  show ?thesis
    using a b short_record_skipped [of "''10.0.0.1||10.0.0.2''" "(7, [''x''])"]
      short_record_skipped [of "''10.0.0.1||443||10.0.0.2||80''" "(7, [''x''])"]
    by simp
qed

text \<open>
  C3: in simple mode the raw record \<open>10.0.0.1||10.0.0.2||6|\<close> decodes to source
  \<open>10.0.0.1\<close>, destination \<open>10.0.0.2\<close> and protocol \<open>TCP\<close>, and a run over the stream
  of that one record prints exactly the line with counter 1 shown below, with or
  without the newline that ends the record on the pipe.
\<close>

theorem scenario_a:
  "decode_simple ''10.0.0.1||10.0.0.2||6|''
     = Inr (Some \<lparr>src = ''10.0.0.1'', dst = ''10.0.0.2'', protocol = ''TCP''\<rparr>)
   \<and> simple_loop (0, []) [''10.0.0.1||10.0.0.2||6|'']
     = ((1, [''     1  10.0.0.1        ---> 10.0.0.2         [TCP]'']), None)
   \<and> simple_loop (0, []) [''10.0.0.1||10.0.0.2||6|'' @ [CHR 0x0A]]
     = ((1, [''     1  10.0.0.1        ---> 10.0.0.2         [TCP]'']), None)"
  by code_simp

text \<open>
  C4: \<open>map_protocol\<close> sends \<open>1\<close> to \<open>ICMP\<close>, \<open>6\<close> to \<open>TCP\<close>, \<open>17\<close> to \<open>UDP\<close> and
  \<open>58\<close> to \<open>ICMPv6\<close>; every other non-empty string to itself; the empty string to
  \<open>IP\<close>.
\<close>

theorem map_protocol_table:
  "map_protocol ''1'' = ''ICMP'' \<and> map_protocol ''6'' = ''TCP''
   \<and> map_protocol ''17'' = ''UDP'' \<and> map_protocol ''58'' = ''ICMPv6''
   \<and> (p \<noteq> [] \<and> p \<noteq> ''1'' \<and> p \<noteq> ''6'' \<and> p \<noteq> ''17'' \<and> p \<noteq> ''58'' \<longrightarrow> map_protocol p = p)
   \<and> map_protocol [] = ''IP''"
  by (simp add: map_protocol_def protocol_map_def)

theorem map_protocol_table_witness:
  "''99'' \<noteq> [] \<and> ''99'' \<noteq> ''1'' \<and> ''99'' \<noteq> ''6'' \<and> ''99'' \<noteq> ''17'' \<and> ''99'' \<noteq> ''58''
   \<and> map_protocol ''99'' = ''99''"
  using map_protocol_table [of "''99''"] by simp

text \<open>
  C5: for every raw record long enough to be decoded, each logical field (source
  address, destination address, protocol) is resolved by the rule
  \<open>resolve\<close>: the IPv4 variant when it is non-empty, the IPv6 variant only when the IPv4
  variant is empty, absent only when both are empty. A record is skipped exactly when an
  address resolves to absent; an absent protocol is the empty string given to
  \<open>map_protocol\<close>.
\<close>

theorem ipv4_preferred:
  "(4 \<le> length (raw_fields raw) \<longrightarrow>
      (decode_simple raw = Inr None \<longleftrightarrow>
         resolve (raw_fields raw ! 0) (raw_fields raw ! 1) = None
         \<or> resolve (raw_fields raw ! 2) (raw_fields raw ! 3) = None)
      \<and> (decode_simple raw = Inr (Some t) \<longrightarrow>
         resolve (raw_fields raw ! 0) (raw_fields raw ! 1) = Some (src t)
         \<and> resolve (raw_fields raw ! 2) (raw_fields raw ! 3) = Some (dst t)
         \<and> protocol t = map_protocol
             (case resolve (field (raw_fields raw) 4) (field (raw_fields raw) 5) of
                Some p \<Rightarrow> p | None \<Rightarrow> [])))
   \<and> (8 \<le> length (raw_fields raw) \<longrightarrow>
      (decode_5tuple raw = Inr None \<longleftrightarrow>
         resolve (raw_fields raw ! 0) (raw_fields raw ! 1) = None
         \<or> resolve (raw_fields raw ! 4) (raw_fields raw ! 5) = None)
      \<and> (decode_5tuple raw = Inr (Some t5) \<longrightarrow>
         resolve (raw_fields raw ! 0) (raw_fields raw ! 1) = Some (src5 t5)
         \<and> resolve (raw_fields raw ! 4) (raw_fields raw ! 5) = Some (dst5 t5)
         \<and> protocol5 t5 = map_protocol
             (case resolve (field (raw_fields raw) 8) (field (raw_fields raw) 9) of
                Some p \<Rightarrow> p | None \<Rightarrow> [])))"
proof -
  have simple: "4 \<le> length (raw_fields raw) \<Longrightarrow>
      (decode_simple raw = Inr None \<longleftrightarrow>
         resolve (raw_fields raw ! 0) (raw_fields raw ! 1) = None
         \<or> resolve (raw_fields raw ! 2) (raw_fields raw ! 3) = None)
      \<and> (decode_simple raw = Inr (Some t) \<longrightarrow>
         resolve (raw_fields raw ! 0) (raw_fields raw ! 1) = Some (src t)
         \<and> resolve (raw_fields raw ! 2) (raw_fields raw ! 3) = Some (dst t)
         \<and> protocol t = map_protocol
             (case resolve (field (raw_fields raw) 4) (field (raw_fields raw) 5) of
                Some p \<Rightarrow> p | None \<Rightarrow> []))"
    by (auto simp add: decode_simple_eq resolve_def field_def split: if_splits)
  have tuple: "8 \<le> length (raw_fields raw) \<Longrightarrow>
      (decode_5tuple raw = Inr None \<longleftrightarrow>
         resolve (raw_fields raw ! 0) (raw_fields raw ! 1) = None
         \<or> resolve (raw_fields raw ! 4) (raw_fields raw ! 5) = None)
      \<and> (decode_5tuple raw = Inr (Some t5) \<longrightarrow>
         resolve (raw_fields raw ! 0) (raw_fields raw ! 1) = Some (src5 t5)
         \<and> resolve (raw_fields raw ! 4) (raw_fields raw ! 5) = Some (dst5 t5)
         \<and> protocol5 t5 = map_protocol
             (case resolve (field (raw_fields raw) 8) (field (raw_fields raw) 9) of
                Some p \<Rightarrow> p | None \<Rightarrow> []))"
    by (auto simp add: decode_5tuple_eq resolve_def field_def split: if_splits)
  from simple tuple show ?thesis by blast
qed

theorem ipv4_preferred_witness:
  "4 \<le> length (raw_fields ''10.0.0.1|fe80::1|10.0.0.2|fe80::2|6|17'')
   \<and> raw_fields ''10.0.0.1|fe80::1|10.0.0.2|fe80::2|6|17''
       = [''10.0.0.1'', ''fe80::1'', ''10.0.0.2'', ''fe80::2'', ''6'', ''17'']
   \<and> decode_simple ''10.0.0.1|fe80::1|10.0.0.2|fe80::2|6|17''
       = Inr (Some \<lparr>src = ''10.0.0.1'', dst = ''10.0.0.2'', protocol = ''TCP''\<rparr>)
   \<and> resolve ''10.0.0.1'' ''fe80::1'' = Some ''10.0.0.1''
   \<and> resolve ''10.0.0.2'' ''fe80::2'' = Some ''10.0.0.2''
   \<and> 8 \<le> length (raw_fields ''|fe80::1|||10.0.0.2|fe80::2|||6|17'')
   \<and> raw_fields ''|fe80::1|||10.0.0.2|fe80::2|||6|17''
       = [[], ''fe80::1'', [], [], ''10.0.0.2'', ''fe80::2'', [], [], ''6'', ''17'']
   \<and> decode_5tuple ''|fe80::1|||10.0.0.2|fe80::2|||6|17''
       = Inr (Some \<lparr>src5 = ''fe80::1'', src_port = [], dst5 = ''10.0.0.2'', dst_port = [],
                      protocol5 = ''TCP''\<rparr>)
   \<and> resolve [] ''fe80::1'' = Some ''fe80::1''"
proof -
  have f: "raw_fields ''10.0.0.1|fe80::1|10.0.0.2|fe80::2|6|17''
       = [''10.0.0.1'', ''fe80::1'', ''10.0.0.2'', ''fe80::2'', ''6'', ''17'']"
    by code_simp
  have d: "decode_simple ''10.0.0.1|fe80::1|10.0.0.2|fe80::2|6|17''
       = Inr (Some \<lparr>src = ''10.0.0.1'', dst = ''10.0.0.2'', protocol = ''TCP''\<rparr>)"
    by code_simp
  have f5: "raw_fields ''|fe80::1|||10.0.0.2|fe80::2|||6|17''
       = [[], ''fe80::1'', [], [], ''10.0.0.2'', ''fe80::2'', [], [], ''6'', ''17'']"
    by code_simp
  have d5: "decode_5tuple ''|fe80::1|||10.0.0.2|fe80::2|||6|17''
       = Inr (Some \<lparr>src5 = ''fe80::1'', src_port = [], dst5 = ''10.0.0.2'', dst_port = [],
                      protocol5 = ''TCP''\<rparr>)"
    by code_simp
  show ?thesis
    using f d f5 d5
      ipv4_preferred [of "''10.0.0.1|fe80::1|10.0.0.2|fe80::2|6|17''"
        "\<lparr>src = ''10.0.0.1'', dst = ''10.0.0.2'', protocol = ''TCP''\<rparr>"
        "\<lparr>src5 = ''fe80::1'', src_port = [], dst5 = ''10.0.0.2'', dst_port = [],
          protocol5 = ''TCP''\<rparr>"]
      ipv4_preferred [of "''|fe80::1|||10.0.0.2|fe80::2|||6|17''"
        "\<lparr>src = ''10.0.0.1'', dst = ''10.0.0.2'', protocol = ''TCP''\<rparr>"
        "\<lparr>src5 = ''fe80::1'', src_port = [], dst5 = ''10.0.0.2'', dst_port = [],
          protocol5 = ''TCP''\<rparr>"]
    by simp
qed

text \<open>
  C7: a decoded tuple has a non-empty source address and a non-empty destination
  address, in both modes; decoding raises no exception; and a record one of whose
  addresses resolves to absent leaves the counter and the printed lines as they are.
\<close>

theorem decoded_addresses_nonempty:
  "(decode_simple raw = Inr (Some t) \<longrightarrow> src t \<noteq> [] \<and> dst t \<noteq> [])
   \<and> (decode_5tuple raw = Inr (Some t5) \<longrightarrow> src5 t5 \<noteq> [] \<and> dst5 t5 \<noteq> [])
   \<and> decode_simple raw \<noteq> Inl e \<and> decode_5tuple raw \<noteq> Inl e
   \<and> (4 \<le> length (raw_fields raw)
        \<and> (resolve (raw_fields raw ! 0) (raw_fields raw ! 1) = None
            \<or> resolve (raw_fields raw ! 2) (raw_fields raw ! 3) = None)
       \<longrightarrow> simple_step st raw = Inr st)
   \<and> (8 \<le> length (raw_fields raw)
        \<and> (resolve (raw_fields raw ! 0) (raw_fields raw ! 1) = None
            \<or> resolve (raw_fields raw ! 4) (raw_fields raw ! 5) = None)
       \<longrightarrow> tuple5_step st raw = Inr st)"
proof -
  have a: "decode_simple raw = Inr (Some t) \<longrightarrow> src t \<noteq> [] \<and> dst t \<noteq> []"
    by (auto simp add: decode_simple_eq split: if_splits)
  have b: "decode_5tuple raw = Inr (Some t5) \<longrightarrow> src5 t5 \<noteq> [] \<and> dst5 t5 \<noteq> []"
    by (auto simp add: decode_5tuple_eq split: if_splits)
  have c: "4 \<le> length (raw_fields raw)
        \<and> (resolve (raw_fields raw ! 0) (raw_fields raw ! 1) = None
            \<or> resolve (raw_fields raw ! 2) (raw_fields raw ! 3) = None)
       \<longrightarrow> decode_simple raw = Inr None"
    by (auto simp add: decode_simple_eq resolve_def split: if_splits)
  have d: "8 \<le> length (raw_fields raw)
        \<and> (resolve (raw_fields raw ! 0) (raw_fields raw ! 1) = None
            \<or> resolve (raw_fields raw ! 4) (raw_fields raw ! 5) = None)
       \<longrightarrow> decode_5tuple raw = Inr None"
    by (auto simp add: decode_5tuple_eq resolve_def split: if_splits)
  from a b c d decode_simple_no_error [of raw e] decode_5tuple_no_error [of raw e]
    simple_step_None [of raw st] tuple5_step_None [of raw st]
  show ?thesis by blast
qed

theorem decoded_addresses_nonempty_witness:
  "decode_simple ''10.0.0.1||10.0.0.2||6|''
       = Inr (Some \<lparr>src = ''10.0.0.1'', dst = ''10.0.0.2'', protocol = ''TCP''\<rparr>)
   \<and> src \<lparr>src = ''10.0.0.1'', dst = ''10.0.0.2'', protocol = ''TCP''\<rparr> \<noteq> []
   \<and> decode_5tuple ''10.0.0.1||443||10.0.0.2||80||6|''
       = Inr (Some \<lparr>src5 = ''10.0.0.1'', src_port = ''443'', dst5 = ''10.0.0.2'',
                      dst_port = ''80'', protocol5 = ''TCP''\<rparr>)
   \<and> 4 \<le> length (raw_fields ''10.0.0.1|||||'')
   \<and> resolve (raw_fields ''10.0.0.1|||||'' ! 2) (raw_fields ''10.0.0.1|||||'' ! 3) = None
   \<and> simple_step (3, [''x'']) ''10.0.0.1|||||'' = Inr (3, [''x''])
   \<and> 8 \<le> length (raw_fields ''||443||10.0.0.2||80||6|'')
   \<and> resolve (raw_fields ''||443||10.0.0.2||80||6|'' ! 0) (raw_fields ''||443||10.0.0.2||80||6|'' ! 1) = None
   \<and> tuple5_step (3, [''x'']) ''||443||10.0.0.2||80||6|'' = Inr (3, [''x''])"
proof -
  have a: "decode_simple ''10.0.0.1||10.0.0.2||6|''
       = Inr (Some \<lparr>src = ''10.0.0.1'', dst = ''10.0.0.2'', protocol = ''TCP''\<rparr>)"
    by code_simp
  have b: "decode_5tuple ''10.0.0.1||443||10.0.0.2||80||6|''
       = Inr (Some \<lparr>src5 = ''10.0.0.1'', src_port = ''443'', dst5 = ''10.0.0.2'',
                      dst_port = ''80'', protocol5 = ''TCP''\<rparr>)"
    by code_simp
  have c: "raw_fields ''10.0.0.1|||||'' = [''10.0.0.1'', [], [], [], [], []]"
    by code_simp
  have d: "raw_fields ''||443||10.0.0.2||80||6|''
      = [[], [], ''443'', [], ''10.0.0.2'', [], ''80'', [], ''6'', []]"
    by code_simp
  show ?thesis
    using a b
      decoded_addresses_nonempty [of "''10.0.0.1|||||''" _ _ _ "(3, [''x''])"]
      decoded_addresses_nonempty [of "''||443||10.0.0.2||80||6|''" _ _ _ "(3, [''x''])"]
    by (simp add: c d resolve_def)
qed

text \<open>
  C10: in 5-tuple mode the TCP port field is used when it is non-empty and the UDP port
  field only when the TCP one is empty, for the source and for the destination port;
  the line rendered has the endpoint \<open>address:port\<close> when the port is non-empty and the
  bare address when it is empty.
\<close>

theorem tcp_port_preferred:
  "8 \<le> length (raw_fields raw) \<and> decode_5tuple raw = Inr (Some t) \<longrightarrow>
     (raw_fields raw ! 2 \<noteq> [] \<longrightarrow> src_port t = raw_fields raw ! 2)
     \<and> (raw_fields raw ! 2 = [] \<longrightarrow> src_port t = raw_fields raw ! 3)
     \<and> (raw_fields raw ! 6 \<noteq> [] \<longrightarrow> dst_port t = raw_fields raw ! 6)
     \<and> (raw_fields raw ! 6 = [] \<longrightarrow> dst_port t = raw_fields raw ! 7)
     \<and> tuple5_step st raw =
         Inr (fst st + 1,
              snd st @ [rjust 6 (str_int (fst st + 1)) @ ''  ''
                          @ ljust 22 (endpoint (src5 t) (src_port t)) @ '' ---> ''
                          @ ljust 22 (endpoint (dst5 t) (dst_port t))
                          @ ''  ['' @ protocol5 t @ '']''])"
proof -
  have ports: "8 \<le> length (raw_fields raw) \<and> decode_5tuple raw = Inr (Some t) \<longrightarrow>
     (raw_fields raw ! 2 \<noteq> [] \<longrightarrow> src_port t = raw_fields raw ! 2)
     \<and> (raw_fields raw ! 2 = [] \<longrightarrow> src_port t = raw_fields raw ! 3)
     \<and> (raw_fields raw ! 6 \<noteq> [] \<longrightarrow> dst_port t = raw_fields raw ! 6)
     \<and> (raw_fields raw ! 6 = [] \<longrightarrow> dst_port t = raw_fields raw ! 7)"
    by (auto simp add: decode_5tuple_eq split: if_splits)
  have line: "format_5tuple_line s sp d dp p k =
      rjust 6 (str_int k) @ ''  '' @ ljust 22 (endpoint s sp) @ '' ---> ''
        @ ljust 22 (endpoint d dp) @ ''  ['' @ p @ '']''" for s sp d dp p k
    by (simp add: format_5tuple_line_def endpoint_def Let_def)
  have step: "decode_5tuple raw = Inr (Some t) \<longrightarrow>
      tuple5_step st raw =
         Inr (fst st + 1,
              snd st @ [rjust 6 (str_int (fst st + 1)) @ ''  ''
                          @ ljust 22 (endpoint (src5 t) (src_port t)) @ '' ---> ''
                          @ ljust 22 (endpoint (dst5 t) (dst_port t))
                          @ ''  ['' @ protocol5 t @ '']''])"
    by (simp add: tuple5_step_Some line)
  from ports step show ?thesis by blast
qed

theorem tcp_port_preferred_witness:
  "8 \<le> length (raw_fields ''10.0.0.1||443|53|10.0.0.2||||6|'')
   \<and> raw_fields ''10.0.0.1||443|53|10.0.0.2||||6|''
       = [''10.0.0.1'', [], ''443'', ''53'', ''10.0.0.2'', [], [], [], ''6'', []]
   \<and> decode_5tuple ''10.0.0.1||443|53|10.0.0.2||||6|''
       = Inr (Some \<lparr>src5 = ''10.0.0.1'', src_port = ''443'', dst5 = ''10.0.0.2'',
                      dst_port = [], protocol5 = ''TCP''\<rparr>)
   \<and> tuple5_step (0, []) ''10.0.0.1||443|53|10.0.0.2||||6|''
       = Inr (1, [''     1  10.0.0.1:443           ---> 10.0.0.2                [TCP]''])
   \<and> 8 \<le> length (raw_fields ''10.0.0.1|||53|10.0.0.2||80|9999|17|'')
   \<and> raw_fields ''10.0.0.1|||53|10.0.0.2||80|9999|17|''
       = [''10.0.0.1'', [], [], ''53'', ''10.0.0.2'', [], ''80'', ''9999'', ''17'', []]
   \<and> decode_5tuple ''10.0.0.1|||53|10.0.0.2||80|9999|17|''
       = Inr (Some \<lparr>src5 = ''10.0.0.1'', src_port = ''53'', dst5 = ''10.0.0.2'',
                      dst_port = ''80'', protocol5 = ''UDP''\<rparr>)
   \<and> tuple5_step (0, []) ''10.0.0.1|||53|10.0.0.2||80|9999|17|''
       = Inr (1, [''     1  10.0.0.1:53            ---> 10.0.0.2:80             [UDP]''])"
proof -
  have f: "raw_fields ''10.0.0.1||443|53|10.0.0.2||||6|''
       = [''10.0.0.1'', [], ''443'', ''53'', ''10.0.0.2'', [], [], [], ''6'', []]"
    by code_simp
  have d: "decode_5tuple ''10.0.0.1||443|53|10.0.0.2||||6|''
       = Inr (Some \<lparr>src5 = ''10.0.0.1'', src_port = ''443'', dst5 = ''10.0.0.2'',
                      dst_port = [], protocol5 = ''TCP''\<rparr>)"
    by code_simp
  have l: "rjust 6 (str_int 1) @ ''  '' @ ljust 22 (endpoint ''10.0.0.1'' ''443'') @ '' ---> ''
        @ ljust 22 (endpoint ''10.0.0.2'' []) @ ''  ['' @ ''TCP'' @ '']''
      = ''     1  10.0.0.1:443           ---> 10.0.0.2                [TCP]''"
    by code_simp
  have f': "raw_fields ''10.0.0.1|||53|10.0.0.2||80|9999|17|''
       = [''10.0.0.1'', [], [], ''53'', ''10.0.0.2'', [], ''80'', ''9999'', ''17'', []]"
    by code_simp
  have d': "decode_5tuple ''10.0.0.1|||53|10.0.0.2||80|9999|17|''
       = Inr (Some \<lparr>src5 = ''10.0.0.1'', src_port = ''53'', dst5 = ''10.0.0.2'',
                      dst_port = ''80'', protocol5 = ''UDP''\<rparr>)"
    by code_simp
  have l': "rjust 6 (str_int 1) @ ''  '' @ ljust 22 (endpoint ''10.0.0.1'' ''53'') @ '' ---> ''
        @ ljust 22 (endpoint ''10.0.0.2'' ''80'') @ ''  ['' @ ''UDP'' @ '']''
      = ''     1  10.0.0.1:53            ---> 10.0.0.2:80             [UDP]''"
    by code_simp
  have a: "8 \<le> length (raw_fields ''10.0.0.1||443|53|10.0.0.2||||6|'')
   \<and> raw_fields ''10.0.0.1||443|53|10.0.0.2||||6|''
       = [''10.0.0.1'', [], ''443'', ''53'', ''10.0.0.2'', [], [], [], ''6'', []]
   \<and> decode_5tuple ''10.0.0.1||443|53|10.0.0.2||||6|''
       = Inr (Some \<lparr>src5 = ''10.0.0.1'', src_port = ''443'', dst5 = ''10.0.0.2'',
                      dst_port = [], protocol5 = ''TCP''\<rparr>)
   \<and> tuple5_step (0, []) ''10.0.0.1||443|53|10.0.0.2||||6|''
       = Inr (1, [''     1  10.0.0.1:443           ---> 10.0.0.2                [TCP]''])"
    using f d l
      tcp_port_preferred [of "''10.0.0.1||443|53|10.0.0.2||||6|''"
        "\<lparr>src5 = ''10.0.0.1'', src_port = ''443'', dst5 = ''10.0.0.2'',
          dst_port = [], protocol5 = ''TCP''\<rparr>" "(0, [])"]
    by simp
  have b: "8 \<le> length (raw_fields ''10.0.0.1|||53|10.0.0.2||80|9999|17|'')
   \<and> raw_fields ''10.0.0.1|||53|10.0.0.2||80|9999|17|''
       = [''10.0.0.1'', [], [], ''53'', ''10.0.0.2'', [], ''80'', ''9999'', ''17'', []]
   \<and> decode_5tuple ''10.0.0.1|||53|10.0.0.2||80|9999|17|''
       = Inr (Some \<lparr>src5 = ''10.0.0.1'', src_port = ''53'', dst5 = ''10.0.0.2'',
                      dst_port = ''80'', protocol5 = ''UDP''\<rparr>)
   \<and> tuple5_step (0, []) ''10.0.0.1|||53|10.0.0.2||80|9999|17|''
       = Inr (1, [''     1  10.0.0.1:53            ---> 10.0.0.2:80             [UDP]''])"
    using f' d' l'
      tcp_port_preferred [of "''10.0.0.1|||53|10.0.0.2||80|9999|17|''"
        "\<lparr>src5 = ''10.0.0.1'', src_port = ''53'', dst5 = ''10.0.0.2'',
          dst_port = ''80'', protocol5 = ''UDP''\<rparr>" "(0, [])"]
    by simp
  from a b show ?thesis
    by simp
qed

section \<open>The loops in closed form\<close>

lemma numbered_simple_Nil: "numbered_simple c [] = []"
  by (simp add: numbered_simple_def)

lemma numbered_simple_Cons:
  "numbered_simple c (t # ts) =
     format_simple_line (src t) (dst t) (protocol t) (c + 1) # numbered_simple (c + 1) ts"
proof -
  have e: "c + int (length (t # ts)) = c + 1 + int (length ts)"
    by simp
  have "[c + 1..c + int (length (t # ts))] = (c + 1) # [c + 1 + 1..c + 1 + int (length ts)]"
    unfolding e by (subst upto.simps) simp
  then show ?thesis
    by (simp add: numbered_simple_def)
qed

lemma numbered_5tuple_Nil: "numbered_5tuple c [] = []"
  by (simp add: numbered_5tuple_def)

lemma numbered_5tuple_Cons:
  "numbered_5tuple c (t # ts) =
     format_5tuple_line (src5 t) (src_port t) (dst5 t) (dst_port t) (protocol5 t) (c + 1)
       # numbered_5tuple (c + 1) ts"
proof -
  have e: "c + int (length (t # ts)) = c + 1 + int (length ts)"
    by simp
  have "[c + 1..c + int (length (t # ts))] = (c + 1) # [c + 1 + 1..c + 1 + int (length ts)]"
    unfolding e by (subst upto.simps) simp
  then show ?thesis
    by (simp add: numbered_5tuple_def)
qed

lemma decoded_simple_Cons:
  "decoded_simple (raw # rest) =
     (case decode_simple raw of
        Inr (Some t) \<Rightarrow> t # decoded_simple rest
      | _ \<Rightarrow> decoded_simple rest)"
  by (simp add: decoded_simple_def split: sum.splits option.splits)

lemma decoded_5tuple_Cons:
  "decoded_5tuple (raw # rest) =
     (case decode_5tuple raw of
        Inr (Some t) \<Rightarrow> t # decoded_5tuple rest
      | _ \<Rightarrow> decoded_5tuple rest)"
  by (simp add: decoded_5tuple_def split: sum.splits option.splits)

lemma simple_loop_from:
  "simple_loop (c, out) lines =
     ((c + int (length (decoded_simple lines)), out @ numbered_simple c (decoded_simple lines)),
      None)"
proof (induction lines arbitrary: c out)
  case Nil
  show ?case
    by (simp add: decoded_simple_def numbered_simple_Nil)
next
  case (Cons raw rest)
  show ?case
  proof (cases "decode_simple raw")
    case (Inl e)
    then show ?thesis
      using decode_simple_no_error [of raw e] by simp
  next
    case (Inr r)
    show ?thesis
    proof (cases r)
      case None
      with Inr have "simple_step (c, out) raw = Inr (c, out)"
        by (simp add: simple_step_None)
      with Inr None Cons.IH [of c out] show ?thesis
        by (simp add: decoded_simple_Cons)
    next
      case (Some t)
      with Inr have "simple_step (c, out) raw =
          Inr (c + 1, out @ [format_simple_line (src t) (dst t) (protocol t) (c + 1)])"
        using simple_step_Some [of raw t "(c, out)"] by simp
      with Inr Some
        Cons.IH [of "c + 1" "out @ [format_simple_line (src t) (dst t) (protocol t) (c + 1)]"]
      show ?thesis
        by (simp add: decoded_simple_Cons numbered_simple_Cons)
    qed
  qed
qed

lemma tuple5_loop_from:
  "tuple5_loop (c, out) lines =
     ((c + int (length (decoded_5tuple lines)), out @ numbered_5tuple c (decoded_5tuple lines)),
      None)"
proof (induction lines arbitrary: c out)
  case Nil
  show ?case
    by (simp add: decoded_5tuple_def numbered_5tuple_Nil)
next
  case (Cons raw rest)
  show ?case
  proof (cases "decode_5tuple raw")
    case (Inl e)
    then show ?thesis
      using decode_5tuple_no_error [of raw e] by simp
  next
    case (Inr r)
    show ?thesis
    proof (cases r)
      case None
      with Inr have "tuple5_step (c, out) raw = Inr (c, out)"
        by (simp add: tuple5_step_None)
      with Inr None Cons.IH [of c out] show ?thesis
        by (simp add: decoded_5tuple_Cons)
    next
      case (Some t)
      with Inr have "tuple5_step (c, out) raw =
          Inr (c + 1, out @ [format_5tuple_line (src5 t) (src_port t) (dst5 t) (dst_port t)
                               (protocol5 t) (c + 1)])"
        using tuple5_step_Some [of raw t "(c, out)"] by simp
      with Inr Some
        Cons.IH [of "c + 1" "out @ [format_5tuple_line (src5 t) (src_port t) (dst5 t) (dst_port t)
                               (protocol5 t) (c + 1)]"]
      show ?thesis
        by (simp add: decoded_5tuple_Cons numbered_5tuple_Cons)
    qed
  qed
qed


section \<open>What is printed is never the notice\<close>

lemma digit_char_in: "digit_char d \<in> set ''0123456789''"
proof -
  have "d mod 10 < length ''0123456789''"
    by simp
  then show ?thesis
    unfolding digit_char_def by (rule nth_mem)
qed

lemma digit_char_ascii: "digit_char d \<noteq> CHR 0xE2"
proof
  assume "digit_char d = CHR 0xE2"
  with digit_char_in [of d] have "CHR 0xE2 \<in> set ''0123456789''"
    by simp
  then show False
    by simp
qed

lemma str_nat_clean: "str_nat n \<noteq> [] \<and> CHR 0xE2 \<notin> set (str_nat n)"
proof (induction n rule: str_nat.induct)
  case (1 n)
  show ?case
  proof (cases "n < 10")
    case True
    then have "str_nat n = [digit_char n]"
      by (subst str_nat.simps) simp
    with digit_char_ascii [of n] show ?thesis
      by auto
  next
    case False
    then have "str_nat n = str_nat (n div 10) @ [digit_char (n mod 10)]"
      by (subst str_nat.simps) simp
    with 1 [OF False] digit_char_ascii [of "n mod 10"] show ?thesis
      by auto
  qed
qed

lemma str_int_clean: "str_int k \<noteq> [] \<and> CHR 0xE2 \<notin> set (str_int k)"
proof (cases "k < 0")
  case True
  then have "str_int k = CHR ''-'' # str_nat (nat (- k))"
    by (simp add: str_int_def)
  with str_nat_clean [of "nat (- k)"] show ?thesis
    by simp
next
  case False
  then have "str_int k = str_nat (nat k)"
    by (simp add: str_int_def)
  with str_nat_clean [of "nat k"] show ?thesis
    by simp
qed

lemma rjust_head: "s \<noteq> [] \<Longrightarrow> hd (rjust n s @ rest) \<in> insert CHR '' '' (set s)"
  by (cases "n - length s") (simp_all add: rjust_def)

lemma counter_head: "hd (rjust 6 (str_int k) @ rest) \<noteq> CHR 0xE2"
proof -
  have "hd (rjust 6 (str_int k) @ rest) \<in> insert CHR '' '' (set (str_int k))"
    using str_int_clean [of k] by (intro rjust_head) simp
  with str_int_clean [of k] show ?thesis
    by auto
qed

lemma format_simple_line_not_notice: "format_simple_line s d p k \<noteq> notice_line"
proof
  assume a: "format_simple_line s d p k = notice_line"
  obtain rest where r: "format_simple_line s d p k = rjust 6 (str_int k) @ rest"
    by (simp add: format_simple_line_def)
  from a have "hd (format_simple_line s d p k) = CHR 0xE2"
    by (simp add: notice_line_def)
  with r counter_head [of k rest] show False
    by simp
qed

lemma format_5tuple_line_not_notice: "format_5tuple_line s sp d dp p k \<noteq> notice_line"
proof
  assume a: "format_5tuple_line s sp d dp p k = notice_line"
  obtain rest where r: "format_5tuple_line s sp d dp p k = rjust 6 (str_int k) @ rest"
    by (simp add: format_5tuple_line_def Let_def)
  from a have "hd (format_5tuple_line s sp d dp p k) = CHR 0xE2"
    by (simp add: notice_line_def)
  with r counter_head [of k rest] show False
    by simp
qed

lemma numbered_simple_not_notice: "notice_line \<notin> set (numbered_simple c ts)"
proof
  assume "notice_line \<in> set (numbered_simple c ts)"
  then obtain k and t :: simple_tuple
    where "notice_line = format_simple_line (src t) (dst t) (protocol t) k"
    by (auto simp add: numbered_simple_def)
  then show False
    using format_simple_line_not_notice [of "src t" "dst t" "protocol t" k] by simp
qed

lemma numbered_5tuple_not_notice: "notice_line \<notin> set (numbered_5tuple c ts)"
proof
  assume "notice_line \<in> set (numbered_5tuple c ts)"
  then obtain k and t :: tuple5 where
    "notice_line = format_5tuple_line (src5 t) (src_port t) (dst5 t) (dst_port t) (protocol5 t) k"
    by (auto simp add: numbered_5tuple_def)
  then show False
    using format_5tuple_line_not_notice
      [of "src5 t" "src_port t" "dst5 t" "dst_port t" "protocol5 t" k] by simp
qed

lemma replicate_not_notice: "c \<noteq> CHR 0xE2 \<Longrightarrow> replicate n c \<noteq> notice_line"
  by (cases n) (simp_all add: notice_line_def)

lemma simple_header_not_notice: "notice_line \<notin> set (simple_header src_ip interface)"
proof -
  have "rjust 6 ''#'' = ''     #''"
    by code_simp
  then show ?thesis
    using replicate_not_notice [of "CHR ''=''" 80] replicate_not_notice [of "CHR ''-''" 80]
    by (auto simp add: simple_header_def banner_rule_def notice_line_def)
qed

lemma tuple5_header_not_notice: "notice_line \<notin> set (tuple5_header src_ip interface)"
proof -
  have "rjust 6 ''#'' = ''     #''"
    by code_simp
  then show ?thesis
    using replicate_not_notice [of "CHR ''=''" 100] replicate_not_notice [of "CHR ''-''" 100]
    by (auto simp add: tuple5_header_def banner_rule_def notice_line_def)
qed

lemma debug_lines_not_notice: "notice_line \<notin> set (debug_lines debug src_ip cmd)"
  by (auto simp add: debug_lines_def notice_line_def)

lemma notice_in: "notice_line \<in> set (no_packets_notice w)"
  by (simp add: no_packets_notice_def notice_line_def)


lemma run_simple_monitor_started:
  "popen ([''stdbuf'', ''-oL''] @ simple_cmd src_ip interface count_limit) = Started lines \<Longrightarrow>
   run_simple_monitor popen src_ip interface count_limit debug =
     (map Print (simple_header src_ip interface
                   @ debug_lines debug src_ip (simple_cmd src_ip interface count_limit))
        @ [Popen ([''stdbuf'', ''-oL''] @ simple_cmd src_ip interface count_limit)]
        @ map Print (numbered_simple 0 (decoded_simple lines))
        @ (if decoded_simple lines = [] then map Print (no_packets_notice 80) else []),
      None)"
  by (simp add: run_simple_monitor_def Let_def simple_loop_from)

lemma run_5tuple_monitor_started:
  "popen ([''stdbuf'', ''-oL''] @ tuple5_cmd src_ip interface count_limit) = Started lines \<Longrightarrow>
   run_5tuple_monitor popen src_ip interface count_limit debug =
     (map Print (tuple5_header src_ip interface
                   @ debug_lines debug src_ip (tuple5_cmd src_ip interface count_limit))
        @ [Popen ([''stdbuf'', ''-oL''] @ tuple5_cmd src_ip interface count_limit)]
        @ map Print (numbered_5tuple 0 (decoded_5tuple lines))
        @ (if decoded_5tuple lines = [] then map Print (no_packets_notice 100) else []),
      None)"
  by (simp add: run_5tuple_monitor_def Let_def tuple5_loop_from)


section \<open>Properties of the presentation loops\<close>

text \<open>
  C6: over a stream whose records decode to N tuples, the loop prints exactly N lines,
  the k-th of them the k-th tuple rendered with the counter k, for k from 1 to N, and the
  final value of the counter is N. In both modes, and no exception ends the loop.
\<close>

theorem counter_counts_decoded:
  "simple_loop (0, []) lines =
     ((int (length (decoded_simple lines)),
       map (\<lambda>(k, t). format_simple_line (src t) (dst t) (protocol t) k)
         (zip [1..int (length (decoded_simple lines))] (decoded_simple lines))),
      None)
   \<and> tuple5_loop (0, []) lines =
     ((int (length (decoded_5tuple lines)),
       map (\<lambda>(k, t). format_5tuple_line (src5 t) (src_port t) (dst5 t) (dst_port t) (protocol5 t) k)
         (zip [1..int (length (decoded_5tuple lines))] (decoded_5tuple lines))),
      None)"
  by (simp add: simple_loop_from tuple5_loop_from numbered_simple_def numbered_5tuple_def)

theorem counter_counts_decoded_witness:
  "decoded_simple [''10.0.0.1||10.0.0.2||6|'', ''not a record'', ''10.0.0.1||10.0.0.3||17|'']
     = [\<lparr>src = ''10.0.0.1'', dst = ''10.0.0.2'', protocol = ''TCP''\<rparr>,
        \<lparr>src = ''10.0.0.1'', dst = ''10.0.0.3'', protocol = ''UDP''\<rparr>]
   \<and> simple_loop (0, [])
       [''10.0.0.1||10.0.0.2||6|'', ''not a record'', ''10.0.0.1||10.0.0.3||17|'']
     = ((2, [''     1  10.0.0.1        ---> 10.0.0.2         [TCP]'',
             ''     2  10.0.0.1        ---> 10.0.0.3         [UDP]'']), None)
   \<and> tuple5_loop (0, []) [''10.0.0.1||443||10.0.0.2||80||6|'', '''']
     = ((1, [''     1  10.0.0.1:443           ---> 10.0.0.2:80             [TCP]'']), None)"
proof -
  have a: "decoded_simple [''10.0.0.1||10.0.0.2||6|'', ''not a record'', ''10.0.0.1||10.0.0.3||17|'']
     = [\<lparr>src = ''10.0.0.1'', dst = ''10.0.0.2'', protocol = ''TCP''\<rparr>,
        \<lparr>src = ''10.0.0.1'', dst = ''10.0.0.3'', protocol = ''UDP''\<rparr>]"
    by code_simp
  have b: "decoded_5tuple [''10.0.0.1||443||10.0.0.2||80||6|'', '''']
     = [\<lparr>src5 = ''10.0.0.1'', src_port = ''443'', dst5 = ''10.0.0.2'', dst_port = ''80'',
         protocol5 = ''TCP''\<rparr>]"
    by code_simp
  have c: "format_simple_line ''10.0.0.1'' ''10.0.0.2'' ''TCP'' 1
      = ''     1  10.0.0.1        ---> 10.0.0.2         [TCP]''"
    by code_simp
  have d: "format_simple_line ''10.0.0.1'' ''10.0.0.3'' ''UDP'' 2
      = ''     2  10.0.0.1        ---> 10.0.0.3         [UDP]''"
    by code_simp
  have e: "format_5tuple_line ''10.0.0.1'' ''443'' ''10.0.0.2'' ''80'' ''TCP'' 1
      = ''     1  10.0.0.1:443           ---> 10.0.0.2:80             [TCP]''"
    by code_simp
  have u: "[1..2] = [1, 2 :: int]" "[1..1] = [1 :: int]"
    by code_simp+
  show ?thesis
    using counter_counts_decoded
      [of "[''10.0.0.1||10.0.0.2||6|'', ''not a record'', ''10.0.0.1||10.0.0.3||17|'']"]
      counter_counts_decoded [of "[''10.0.0.1||443||10.0.0.2||80||6|'', '''']"]
    by (simp add: a b c d e u)
qed

text \<open>
  C8: when the capture process has started and its stream has ended, a run in which no
  record decoded prints, after the header, exactly the three lines of the notice and no
  numbered line; a run in which at least one record decoded prints the numbered lines and
  the line of the notice is not among the events of the run. In both modes.
\<close>

theorem no_packets_notice_iff_none_decoded:
  "(popen ([''stdbuf'', ''-oL''] @ simple_cmd src_ip interface count_limit) = Started lines \<longrightarrow>
      (decoded_simple lines = [] \<longrightarrow>
         run_simple_monitor popen src_ip interface count_limit debug =
           (map Print (simple_header src_ip interface
                         @ debug_lines debug src_ip (simple_cmd src_ip interface count_limit))
              @ [Popen ([''stdbuf'', ''-oL''] @ simple_cmd src_ip interface count_limit)]
              @ map Print (no_packets_notice 80),
            None)
         \<and> Print notice_line \<in> set (fst (run_simple_monitor popen src_ip interface count_limit debug)))
      \<and> (decoded_simple lines \<noteq> [] \<longrightarrow>
         run_simple_monitor popen src_ip interface count_limit debug =
           (map Print (simple_header src_ip interface
                         @ debug_lines debug src_ip (simple_cmd src_ip interface count_limit))
              @ [Popen ([''stdbuf'', ''-oL''] @ simple_cmd src_ip interface count_limit)]
              @ map Print (numbered_simple 0 (decoded_simple lines)),
            None)
         \<and> Print notice_line \<notin> set (fst (run_simple_monitor popen src_ip interface count_limit debug))))
   \<and> (popen ([''stdbuf'', ''-oL''] @ tuple5_cmd src_ip interface count_limit) = Started lines \<longrightarrow>
      (decoded_5tuple lines = [] \<longrightarrow>
         run_5tuple_monitor popen src_ip interface count_limit debug =
           (map Print (tuple5_header src_ip interface
                         @ debug_lines debug src_ip (tuple5_cmd src_ip interface count_limit))
              @ [Popen ([''stdbuf'', ''-oL''] @ tuple5_cmd src_ip interface count_limit)]
              @ map Print (no_packets_notice 100),
            None)
         \<and> Print notice_line \<in> set (fst (run_5tuple_monitor popen src_ip interface count_limit debug)))
      \<and> (decoded_5tuple lines \<noteq> [] \<longrightarrow>
         run_5tuple_monitor popen src_ip interface count_limit debug =
           (map Print (tuple5_header src_ip interface
                         @ debug_lines debug src_ip (tuple5_cmd src_ip interface count_limit))
              @ [Popen ([''stdbuf'', ''-oL''] @ tuple5_cmd src_ip interface count_limit)]
              @ map Print (numbered_5tuple 0 (decoded_5tuple lines)),
            None)
         \<and> Print notice_line \<notin> set (fst (run_5tuple_monitor popen src_ip interface count_limit debug))))"
proof -
  have inj: "Print s \<in> Print ` A \<longleftrightarrow> s \<in> A" for s A
    by auto
  have simple: "popen ([''stdbuf'', ''-oL''] @ simple_cmd src_ip interface count_limit) = Started lines \<Longrightarrow>
      (decoded_simple lines = [] \<longrightarrow>
         run_simple_monitor popen src_ip interface count_limit debug =
           (map Print (simple_header src_ip interface
                         @ debug_lines debug src_ip (simple_cmd src_ip interface count_limit))
              @ [Popen ([''stdbuf'', ''-oL''] @ simple_cmd src_ip interface count_limit)]
              @ map Print (no_packets_notice 80),
            None)
         \<and> Print notice_line \<in> set (fst (run_simple_monitor popen src_ip interface count_limit debug)))
      \<and> (decoded_simple lines \<noteq> [] \<longrightarrow>
         run_simple_monitor popen src_ip interface count_limit debug =
           (map Print (simple_header src_ip interface
                         @ debug_lines debug src_ip (simple_cmd src_ip interface count_limit))
              @ [Popen ([''stdbuf'', ''-oL''] @ simple_cmd src_ip interface count_limit)]
              @ map Print (numbered_simple 0 (decoded_simple lines)),
            None)
         \<and> Print notice_line \<notin> set (fst (run_simple_monitor popen src_ip interface count_limit debug)))"
    using simple_header_not_notice [of src_ip interface]
      debug_lines_not_notice [of debug src_ip "simple_cmd src_ip interface count_limit"]
      numbered_simple_not_notice [of 0 "decoded_simple lines"] notice_in [of 80]
    by (simp add: run_simple_monitor_started numbered_simple_Nil inj)
  have tuple: "popen ([''stdbuf'', ''-oL''] @ tuple5_cmd src_ip interface count_limit) = Started lines \<Longrightarrow>
      (decoded_5tuple lines = [] \<longrightarrow>
         run_5tuple_monitor popen src_ip interface count_limit debug =
           (map Print (tuple5_header src_ip interface
                         @ debug_lines debug src_ip (tuple5_cmd src_ip interface count_limit))
              @ [Popen ([''stdbuf'', ''-oL''] @ tuple5_cmd src_ip interface count_limit)]
              @ map Print (no_packets_notice 100),
            None)
         \<and> Print notice_line \<in> set (fst (run_5tuple_monitor popen src_ip interface count_limit debug)))
      \<and> (decoded_5tuple lines \<noteq> [] \<longrightarrow>
         run_5tuple_monitor popen src_ip interface count_limit debug =
           (map Print (tuple5_header src_ip interface
                         @ debug_lines debug src_ip (tuple5_cmd src_ip interface count_limit))
              @ [Popen ([''stdbuf'', ''-oL''] @ tuple5_cmd src_ip interface count_limit)]
              @ map Print (numbered_5tuple 0 (decoded_5tuple lines)),
            None)
         \<and> Print notice_line \<notin> set (fst (run_5tuple_monitor popen src_ip interface count_limit debug)))"
    using tuple5_header_not_notice [of src_ip interface]
      debug_lines_not_notice [of debug src_ip "tuple5_cmd src_ip interface count_limit"]
      numbered_5tuple_not_notice [of 0 "decoded_5tuple lines"] notice_in [of 100]
    by (simp add: run_5tuple_monitor_started numbered_5tuple_Nil inj)
  from simple tuple show ?thesis
    by blast
qed

theorem no_packets_notice_iff_none_decoded_witness:
  "decoded_simple [''ARP who-has''] = []
   \<and> run_simple_monitor (\<lambda>cmd. Started [''ARP who-has'']) ''10.61.0.1'' ''val0'' None False
       = (map Print (simple_header ''10.61.0.1'' ''val0'')
            @ [Popen ([''stdbuf'', ''-oL''] @ simple_cmd ''10.61.0.1'' ''val0'' None)]
            @ map Print (no_packets_notice 80),
          None)
   \<and> decoded_simple [''10.61.0.1||10.0.0.2||6|''] \<noteq> []
   \<and> Print notice_line \<notin> set (fst (run_simple_monitor (\<lambda>cmd. Started [''10.61.0.1||10.0.0.2||6|''])
                                        ''10.61.0.1'' ''val0'' None False))
   \<and> decoded_5tuple [] = []
   \<and> Print notice_line \<in> set (fst (run_5tuple_monitor (\<lambda>cmd. Started [])
                                        ''10.61.0.1'' ''val0'' None False))
   \<and> decoded_5tuple [''10.61.0.1||443||10.0.0.2||80||6|''] \<noteq> []
   \<and> Print notice_line \<notin> set (fst (run_5tuple_monitor (\<lambda>cmd. Started [''10.61.0.1||443||10.0.0.2||80||6|''])
                                        ''10.61.0.1'' ''val0'' None False))"
proof -
  have a: "decoded_simple [''ARP who-has''] = []"
    by code_simp
  have b: "decoded_simple [''10.61.0.1||10.0.0.2||6|''] \<noteq> []"
    by code_simp
  have c: "decoded_5tuple [] = []"
    by code_simp
  have d: "decoded_5tuple [''10.61.0.1||443||10.0.0.2||80||6|''] \<noteq> []"
    by code_simp
  have e: "debug_lines False s cmd = []" for s cmd
    by (simp add: debug_lines_def)
  note z1 = no_packets_notice_iff_none_decoded
        [where popen = "\<lambda>cmd. Started [''ARP who-has'']" and lines = "[''ARP who-has'']"
           and src_ip = "''10.61.0.1''" and interface = "''val0''" and count_limit = None
           and debug = False,
         THEN conjunct1, THEN mp, OF refl, THEN conjunct1, THEN mp, OF a]
  note z2 = no_packets_notice_iff_none_decoded
        [where popen = "\<lambda>cmd. Started [''10.61.0.1||10.0.0.2||6|'']"
           and lines = "[''10.61.0.1||10.0.0.2||6|'']"
           and src_ip = "''10.61.0.1''" and interface = "''val0''" and count_limit = None
           and debug = False,
         THEN conjunct1, THEN mp, OF refl, THEN conjunct2, THEN mp, OF b]
  note z3 = no_packets_notice_iff_none_decoded
        [where popen = "\<lambda>cmd. Started []" and lines = "[]"
           and src_ip = "''10.61.0.1''" and interface = "''val0''" and count_limit = None
           and debug = False,
         THEN conjunct2, THEN mp, OF refl, THEN conjunct1, THEN mp, OF c]
  note z4 = no_packets_notice_iff_none_decoded
        [where popen = "\<lambda>cmd. Started [''10.61.0.1||443||10.0.0.2||80||6|'']"
           and lines = "[''10.61.0.1||443||10.0.0.2||80||6|'']"
           and src_ip = "''10.61.0.1''" and interface = "''val0''" and count_limit = None
           and debug = False,
         THEN conjunct2, THEN mp, OF refl, THEN conjunct2, THEN mp, OF d]
  from z1 have y1: "run_simple_monitor (\<lambda>cmd. Started [''ARP who-has'']) ''10.61.0.1'' ''val0'' None False
       = (map Print (simple_header ''10.61.0.1'' ''val0'')
            @ [Popen ([''stdbuf'', ''-oL''] @ simple_cmd ''10.61.0.1'' ''val0'' None)]
            @ map Print (no_packets_notice 80),
          None)"
    by (simp add: e)
  note y2 = z2 [THEN conjunct2]
  note y3 = z3 [THEN conjunct2]
  note y4 = z4 [THEN conjunct2]
  show ?thesis
    by (intro conjI a b c d y1 y2 y3 y4)
qed

section \<open>Substrings\<close>

lemma starts_with_iff: "starts_with x s \<longleftrightarrow> (\<exists>t. s = x @ t)"
  by (induction x s rule: starts_with.induct) auto

lemma contains_iff: "contains x s \<longleftrightarrow> (\<exists>p t. s = p @ x @ t)"
proof (induction s)
  case Nil
  show ?case by auto
next
  case (Cons c cs)
  show ?case
  proof
    assume "contains x (c # cs)"
    then consider "starts_with x (c # cs)" | "contains x cs"
      by auto
    then show "\<exists>p t. c # cs = p @ x @ t"
    proof cases
      case 1
      then obtain t where "c # cs = x @ t"
        by (auto simp add: starts_with_iff)
      then have "c # cs = [] @ x @ t"
        by simp
      then show ?thesis
        by blast
    next
      case 2
      with Cons.IH obtain p t where "cs = p @ x @ t"
        by auto
      then have "c # cs = (c # p) @ x @ t"
        by simp
      then show ?thesis
        by blast
    qed
  next
    assume "\<exists>p t. c # cs = p @ x @ t"
    then obtain p t where e: "c # cs = p @ x @ t"
      by auto
    show "contains x (c # cs)"
    proof (cases p)
      case Nil
      with e have "starts_with x (c # cs)"
        by (auto simp add: starts_with_iff)
      then show ?thesis
        by simp
    next
      case (Cons a q)
      with e have "cs = q @ x @ t"
        by simp
      with Cons.IH have "contains x cs"
        by auto
      then show ?thesis
        by simp
    qed
  qed
qed

lemma contains_tail: "contains (a @ b) s \<Longrightarrow> contains b s"
proof -
  assume "contains (a @ b) s"
  then obtain p t where "s = p @ (a @ b) @ t"
    by (auto simp add: contains_iff)
  then have "s = (p @ a) @ b @ t"
    by simp
  then show ?thesis
    unfolding contains_iff by blast
qed

lemma probe_completed:
  "run (probe_cmd interface) = Completed returncode out err \<Longrightarrow>
   probe_capture_permissions run interface =
     (if contains ''permission'' (lower_str err) then (False, strip_str err)
      else if returncode \<noteq> 0 \<and> err \<noteq> [] then (False, strip_str err)
      else (True, []))"
proof -
  assume r: "run (probe_cmd interface) = Completed returncode out err"
  have sub: "contains (''you don'' @ [CHR 0x27] @ ''t have permission'') s \<Longrightarrow> contains ''permission'' s" for s
  proof -
    assume "contains (''you don'' @ [CHR 0x27] @ ''t have permission'') s"
    then have "contains ((''you don'' @ [CHR 0x27] @ ''t have '') @ ''permission'') s"
      by simp
    then show ?thesis
      by (rule contains_tail)
  qed
  have low: "lower_str err = [] \<longleftrightarrow> err = []"
    by (simp add: lower_str_def)
  show ?thesis
    using sub [of "lower_str err"] low
    by (auto simp add: probe_capture_permissions_def r Let_def)
qed


section \<open>The traces of the entry point\<close>









section \<open>Properties of the permission probe and of the entry point\<close>

text \<open>
  C2, as stated, fails in its last case: when starting the probe raises an exception
  that is neither FileNotFoundError nor TimeoutExpired, the probe returns not-ok with the
  text of the exception, where the claim has ok for every remaining case.
\<close>

theorem probe_other_exception_counterexample:
  "run_raises (probe_cmd ''val0'') = RunRaises ''[Errno 12] Cannot allocate memory''
   \<and> \<not> fst (probe_capture_permissions run_raises ''val0'')
   \<and> snd (probe_capture_permissions run_raises ''val0'') = ''[Errno 12] Cannot allocate memory''"
  by (simp add: probe_capture_permissions_def run_raises_def)

text \<open>
  C2, amended: the probe returns not-ok with a message containing \<open>not found\<close> when the
  capture engine is missing; not-ok with the diagnostic text, stripped of surrounding
  white space, when the standard error mentions \<open>permission\<close> in any letter case; not-ok
  with the stripped diagnostic text when the exit status is non-zero and the standard
  error is non-empty; ok when the probe times out; not-ok with the text of the exception
  when any other exception is raised; and ok in the remaining case, a completed probe
  whose standard error does not mention permission and whose exit status is zero or
  standard error empty.
\<close>

theorem probe_classification:
  "(run (probe_cmd interface) = RunFileNotFound \<longrightarrow>
      \<not> fst (probe_capture_permissions run interface)
      \<and> contains ''not found'' (snd (probe_capture_permissions run interface)))
   \<and> (run (probe_cmd interface) = Completed returncode out err
        \<and> contains ''permission'' (lower_str err) \<longrightarrow>
      probe_capture_permissions run interface = (False, strip_str err))
   \<and> (run (probe_cmd interface) = Completed returncode out err
        \<and> \<not> contains ''permission'' (lower_str err) \<and> returncode \<noteq> 0 \<and> err \<noteq> [] \<longrightarrow>
      probe_capture_permissions run interface = (False, strip_str err))
   \<and> (run (probe_cmd interface) = RunTimeout \<longrightarrow>
      probe_capture_permissions run interface = (True, []))
   \<and> (run (probe_cmd interface) = RunRaises msg \<longrightarrow>
      probe_capture_permissions run interface = (False, msg))
   \<and> (run (probe_cmd interface) = Completed returncode out err
        \<and> \<not> contains ''permission'' (lower_str err) \<and> (returncode = 0 \<or> err = []) \<longrightarrow>
      probe_capture_permissions run interface = (True, []))"
proof -
  have nf: "contains ''not found'' ''tshark not found''"
    by code_simp
  have a: "run (probe_cmd interface) = RunFileNotFound \<longrightarrow>
      \<not> fst (probe_capture_permissions run interface)
      \<and> contains ''not found'' (snd (probe_capture_permissions run interface))"
    using nf by (simp add: probe_capture_permissions_def)
  have b: "run (probe_cmd interface) = RunTimeout \<longrightarrow>
      probe_capture_permissions run interface = (True, [])"
    by (simp add: probe_capture_permissions_def)
  have c: "run (probe_cmd interface) = RunRaises msg \<longrightarrow>
      probe_capture_permissions run interface = (False, msg)"
    by (simp add: probe_capture_permissions_def)
  from a b c probe_completed [of run interface returncode out err] show ?thesis
    by auto
qed

theorem probe_classification_witness:
  "probe_capture_permissions run_missing ''val0'' = (False, ''tshark not found'')
   \<and> contains ''permission'' (lower_str denied_text)
   \<and> probe_capture_permissions run_denied ''any'' = (False, strip_str denied_text)
   \<and> probe_capture_permissions run_no_device ''val9''
       = (False, ''tshark: There is no device named val9'')
   \<and> probe_capture_permissions run_timeout ''val0'' = (True, [])
   \<and> probe_capture_permissions run_raises ''val0'' = (False, ''[Errno 12] Cannot allocate memory'')
   \<and> probe_capture_permissions run_ok ''val0'' = (True, [])"
proof -
  have p: "contains ''permission'' (lower_str denied_text)"
    by code_simp
  have q: "\<not> contains ''permission'' (lower_str (''tshark: There is no device named val9'' @ [CHR 0x0A]))"
    by code_simp
  have s: "strip_str (''tshark: There is no device named val9'' @ [CHR 0x0A])
      = ''tshark: There is no device named val9''"
    by code_simp
  have e: "\<not> contains ''permission'' (lower_str [])"
    by code_simp
  have nf: "probe_capture_permissions run_missing ''val0'' = (False, ''tshark not found'')"
    by (simp add: probe_capture_permissions_def run_missing_def)
  note c = probe_classification
  have 1: "probe_capture_permissions run_denied ''any'' = (False, strip_str denied_text)"
    using p c [of run_denied "''any''" 2 "[]" denied_text]
    by (simp add: run_denied_def)
  have 2: "probe_capture_permissions run_no_device ''val9''
       = (False, ''tshark: There is no device named val9'')"
    using q s c [of run_no_device "''val9''" 2 "[]" "''tshark: There is no device named val9'' @ [CHR 0x0A]"]
    by (simp add: run_no_device_def)
  have 3: "probe_capture_permissions run_timeout ''val0'' = (True, [])"
    using c [of run_timeout "''val0''"] by (simp add: run_timeout_def)
  have 4: "probe_capture_permissions run_raises ''val0'' = (False, ''[Errno 12] Cannot allocate memory'')"
    using c [of run_raises "''val0''" _ _ _ "''[Errno 12] Cannot allocate memory''"]
    by (simp add: run_raises_def)
  have 5: "probe_capture_permissions run_ok ''val0'' = (True, [])"
    using e c [of run_ok "''val0''" 0 "[]" "[]"] by (simp add: run_ok_def)
  show ?thesis
    by (intro conjI nf p 1 2 3 4 5)
qed





end
